theory Spec2Isabelle
  imports Main
begin

section \<open>JavaScript values\<close>

text \<open>
  The values that flow through the components are typed \<open>any\<close> in the source. They are
  modelled by a datatype of JSON-like values. Numbers are integers here (no claim below
  depends on fractional numbers or NaN); strings are lists of code units.
\<close>

datatype jsval =
    JUndefined
  | JNull
  | JBool bool
  | JNum int
  | JStr string
  | JArr "jsval list"
  | JObj "(string \<times> jsval) list"

text \<open>JavaScript truthiness, as tested by \<open>if (v)\<close> and \<open>!v\<close>.\<close>

fun truthy :: "jsval \<Rightarrow> bool" where
  "truthy JUndefined = False"
| "truthy JNull = False"
| "truthy (JBool b) = b"
| "truthy (JNum n) = (n \<noteq> 0)"
| "truthy (JStr s) = (s \<noteq> [])"
| "truthy (JArr xs) = True"
| "truthy (JObj kvs) = True"

text \<open>Truthiness of an optional number (\<open>number | undefined\<close>).\<close>

fun truthy_num :: "int option \<Rightarrow> bool" where
  "truthy_num None = False"
| "truthy_num (Some n) = (n \<noteq> 0)"

section \<open>The format option\<close>

datatype format = FObject | FHtml | FText | FJson

text \<open>
  Modelled from the spec: \<open>getFormat\<close> from \<open>./helpers\<close> is imported by both components
  but is not among the source files. The spec gives its precedence: component-level
  override, then service-level default, then \<open>'html'\<close>.
\<close>

definition getFormat :: "format option \<Rightarrow> format option \<Rightarrow> format" where
  "getFormat fmt configFormat =
     (case fmt of
        Some f \<Rightarrow> f
      | None \<Rightarrow> (case configFormat of Some f \<Rightarrow> f | None \<Rightarrow> FHtml))"

section \<open>The engine seen from the components\<close>

text \<open>
  The rich-text engine is an external collaborator. A component only calls its methods, so
  an engine instance is modelled by what the component did to it: the list of calls made so
  far (oldest first), the enabled flag that \<open>enable\<close>/\<open>disable\<close> toggle, and the event
  handlers registered through \<open>on\<close>/\<open>off\<close>. The optional second argument of the two
  setters is the source flag; \<open>None\<close> means the argument was not passed.
\<close>

datatype call =
    SetText jsval "string option"
  | SetContents jsval "string option"
  | HistoryClear
  | Enable
  | Disable

datatype event_name = SelectionChange | TextChange | EditorChange

text \<open>A registered handler: the engine event and the debounce applied to its stream.\<close>

datatype listener = Listener event_name "int option"

record engine =
  calls :: "call list"
  enabled :: bool
  handlers :: "listener list"

fun is_write :: "call \<Rightarrow> bool" where
  "is_write (SetText v src) = True"
| "is_write (SetContents v src) = True"
| "is_write c = False"

definition invoke :: "call \<Rightarrow> engine \<Rightarrow> engine" where
  "invoke c e = e\<lparr>calls := calls e @ [c]\<rparr>"

definition setText :: "jsval \<Rightarrow> string option \<Rightarrow> engine \<Rightarrow> engine" where
  "setText v src e = invoke (SetText v src) e"

definition setContents :: "jsval \<Rightarrow> string option \<Rightarrow> engine \<Rightarrow> engine" where
  "setContents v src e = invoke (SetContents v src) e"

definition historyClear :: "engine \<Rightarrow> engine" where
  "historyClear e = invoke HistoryClear e"

definition enable :: "engine \<Rightarrow> engine" where
  "enable e = (invoke Enable e)\<lparr>enabled := True\<rparr>"

definition disable :: "engine \<Rightarrow> engine" where
  "disable e = (invoke Disable e)\<lparr>enabled := False\<rparr>"

definition on :: "listener \<Rightarrow> engine \<Rightarrow> engine" where
  "on l e = e\<lparr>handlers := handlers e @ [l]\<rparr>"

definition off :: "listener \<Rightarrow> engine \<Rightarrow> engine" where
  "off l e = e\<lparr>handlers := remove1 l (handlers e)\<rparr>"

subsection \<open>The engine's document\<close>

text \<open>
  The operation list returned by \<open>getContents().ops\<close>. The inserted value of an
  operation is typed \<open>string | Record<string, unknown>\<close> and may be absent; the other
  properties of an operation (\<open>delete\<close>, \<open>retain\<close>, \<open>attributes\<close>) are kept as they are.
\<close>

datatype inserted = InsText string | InsEmbed "(string \<times> jsval) list"

record op =
  op_insert :: "inserted option"
  op_rest :: "(string \<times> jsval) list"

record delta =
  ops :: "op list"

fun inserted_js :: "inserted \<Rightarrow> jsval" where
  "inserted_js (InsText s) = JStr s"
| "inserted_js (InsEmbed r) = JObj r"

definition op_js :: "op \<Rightarrow> jsval" where
  "op_js p =
     JObj ((case op_insert p of None \<Rightarrow> [] | Some i \<Rightarrow> [(''insert'', inserted_js i)]) @ op_rest p)"

definition delta_js :: "delta \<Rightarrow> jsval" where
  "delta_js d = JObj [(''ops'', JArr (map op_js (ops d)))]"

text \<open>\<open>insert?.toString()\<close>: \<open>None\<close> is \<open>undefined\<close>.\<close>

fun insert_toString :: "inserted option \<Rightarrow> string option" where
  "insert_toString None = None"
| "insert_toString (Some (InsText s)) = Some s"
| "insert_toString (Some (InsEmbed r)) = Some ''[object Object]''"

subsection \<open>Collaborators outside the repository\<close>

text \<open>
  What the engine answers when it is read, the HTML importer and sanitizer, and the
  language's \<open>JSON.parse\<close> and \<open>JSON.stringify\<close> are not code of this repository.
  They are parameters of the model. \<open>JSON_parse\<close> returns \<open>None\<close> where
  \<open>JSON.parse\<close> throws; \<open>JSON_stringify\<close> returns \<open>None\<close> where \<open>JSON.stringify\<close>
  returns \<open>undefined\<close>.
\<close>

record collab =
  getText :: "engine \<Rightarrow> string"
  getContents :: "engine \<Rightarrow> delta"
  clipboard_convert :: "jsval \<Rightarrow> jsval"
  sanitizeHtml :: "jsval \<Rightarrow> jsval"
  JSON_parse :: "jsval \<Rightarrow> jsval option"
  JSON_stringify :: "jsval \<Rightarrow> string option"

section \<open>State shared by the two components\<close>

record component =
  format :: "format option"
  sanitize :: "bool option"
  config_format :: "format option"
  config_sanitize :: "bool option"
  quillEditor :: "engine option"
  content :: jsval

text \<open>
  The sanitize flag: the input when it is \<open>true\<close> or \<open>false\<close>, else the service
  default, else \<open>false\<close>.
\<close>

definition resolve_sanitize :: "'a component_scheme \<Rightarrow> bool" where
  "resolve_sanitize s =
     (case sanitize s of
        Some b \<Rightarrow> b
      | None \<Rightarrow> (case config_sanitize s of Some b \<Rightarrow> b | None \<Rightarrow> False))"

section \<open>The editable component\<close>

datatype track = TrackUser | TrackAll

datatype range = Range int int

text \<open>What the editor emitted on its output channels and callbacks, oldest first.\<close>

datatype emission =
    OnBlur string
  | OnFocus string
  | OnSelectionChanged "range option" "range option" string
  | ModelTouched

record editor = component +
  readOnly :: "bool option"
  config_readOnly :: "bool option"
  maxLength :: "int option"
  minLength :: "int option"
  required :: bool
  trackChanges :: "track option"
  config_trackChanges :: "track option"
  trimOnValidation :: bool
  compareValues :: bool
  filterNull :: bool
  debounceTime :: "int option"
  disabled :: bool
  eventsSubscription :: "listener list option"
  onModelTouched :: bool
  onBlur_observed :: bool
  onFocus_observed :: bool
  onSelectionChanged_observed :: bool
  emitted :: "emission list"
  host_disabled :: "string option"

text \<open>
  The default \<open>valueSetter\<close> of the editable component: it computes the native content for
  a value and returns it.
\<close>

definition valueSetter :: "collab \<Rightarrow> 'a component_scheme \<Rightarrow> jsval \<Rightarrow> jsval" where
  "valueSetter c s v =
     (let fmt = getFormat (format s) (config_format s) in
      if fmt = FHtml then
        clipboard_convert c (if resolve_sanitize s then sanitizeHtml c v else v)
      else if fmt = FJson then
        (case JSON_parse c v of
           Some parsed \<Rightarrow> parsed
         | None \<Rightarrow> JArr [JObj [(''insert'', v)]])
      else v)"

definition writeValue :: "collab \<Rightarrow> jsval \<Rightarrow> editor \<Rightarrow> editor" where
  "writeValue c currentValue s =
     (if filterNull s \<and> currentValue = JNull then s
      else
        let s1 = s\<lparr>content := currentValue\<rparr> in
        case quillEditor s1 of
          None \<Rightarrow> s1
        | Some e \<Rightarrow>
            let fmt = getFormat (format s1) (config_format s1);
                newValue = valueSetter c s1 currentValue
            in
            if compareValues s1 \<and>
               JSON_stringify c (delta_js (getContents c e)) = JSON_stringify c newValue
            then s1
            else if truthy currentValue then
              (if fmt = FText then s1\<lparr>quillEditor := Some (setText currentValue None e)\<rparr>
               else s1\<lparr>quillEditor := Some (setContents newValue None e)\<rparr>)
            else s1\<lparr>quillEditor := Some (setText (JStr '''') None e)\<rparr>)"

text \<open>
  \<open>setDisabledState(isDisabled = this._disabled)\<close>: \<open>None\<close> is the call without an
  argument. The host element's \<open>disabled\<close> attribute is \<open>host_disabled\<close>.
\<close>

definition setDisabledState :: "bool option \<Rightarrow> editor \<Rightarrow> editor" where
  "setDisabledState arg s =
     (let isDisabled = (case arg of None \<Rightarrow> disabled s | Some b \<Rightarrow> b);
          s1 = s\<lparr>disabled := isDisabled\<rparr>
      in
      case quillEditor s1 of
        None \<Rightarrow> s1
      | Some e \<Rightarrow>
          if isDisabled then
            s1\<lparr>quillEditor := Some (disable e), host_disabled := Some ''disabled''\<rparr>
          else
            s1\<lparr>quillEditor := Some (if readOnly s1 = Some True then e else enable e),
               host_disabled := None\<rparr>)"

text \<open>
  \<open>_dispose\<close> unsubscribes the current subscription, which detaches each of its
  handlers from the engine, and forgets it.
\<close>

definition dispose :: "editor \<Rightarrow> editor" where
  "dispose s =
     (case eventsSubscription s of
        None \<Rightarrow> s
      | Some ls \<Rightarrow>
          s\<lparr>quillEditor := map_option (fold off ls) (quillEditor s),
            eventsSubscription := None\<rparr>)"

text \<open>
  \<open>_addQuillEventListeners\<close>. Both call sites run it with an existing instance;
  without one \<open>fromEvent\<close> has no target, and the model stops after \<open>_dispose\<close>.
  The debounce is applied where \<open>typeof this.debounceTime() === 'number'\<close>.
\<close>

definition addQuillEventListeners :: "editor \<Rightarrow> editor" where
  "addQuillEventListeners s =
     (let s1 = dispose s in
      case quillEditor s1 of
        None \<Rightarrow> s1
      | Some e \<Rightarrow>
          let ls = [Listener SelectionChange None,
                    Listener TextChange (debounceTime s1),
                    Listener EditorChange (debounceTime s1)]
          in s1\<lparr>quillEditor := Some (fold on ls e), eventsSubscription := Some ls\<rparr>)"

text \<open>
  The subscription to the \<open>debounceTime\<close> input: the input holds the new value when
  the callback runs.
\<close>

definition debounceTime_changed :: "int option \<Rightarrow> editor \<Rightarrow> editor" where
  "debounceTime_changed d s =
     (let s1 = s\<lparr>debounceTime := d\<rparr> in
      case quillEditor s1 of
        None \<Rightarrow> s1
      | Some e \<Rightarrow> if truthy_num d then addQuillEventListeners s1 else s1)"

text \<open>
  The callback of the loader subscription in the constructor, which creates the
  instance. Of the options handed to \<open>new Quill\<close> only \<open>readOnly\<close> is kept: the
  engine starts disabled when it is set, and with no call received and no handler
  attached. Then the cached content is flushed, \<open>setDisabledState()\<close> is called
  without an argument, and the listeners are attached. The steps that resolve the other
  options, style the DOM element, subscribe to DOM events or announce the new instance
  are left out: they do not touch the state modelled here.
\<close>

definition resolve_readOnly :: "editor \<Rightarrow> bool" where
  "resolve_readOnly s =
     (case readOnly s of
        Some b \<Rightarrow> b
      | None \<Rightarrow> (case config_readOnly s of Some b \<Rightarrow> b | None \<Rightarrow> False))"

definition new_Quill :: "bool \<Rightarrow> engine" where
  "new_Quill ro = \<lparr>calls = [], enabled = \<not> ro, handlers = []\<rparr>"

definition flushContent :: "collab \<Rightarrow> editor \<Rightarrow> engine \<Rightarrow> engine" where
  "flushContent c s e =
     (if truthy (content s) then
        historyClear
          (if getFormat (format s) (config_format s) = FText
           then setText (content s) (Some ''silent'') e
           else setContents (valueSetter c s (content s)) (Some ''silent'') e)
      else e)"

definition createEditor :: "collab \<Rightarrow> editor \<Rightarrow> editor" where
  "createEditor c s =
     (let e = new_Quill (resolve_readOnly s);
          s1 = s\<lparr>quillEditor := Some (flushContent c s e)\<rparr>;
          s2 = setDisabledState None s1
      in addQuillEventListeners s2)"

subsection \<open>Selection changes\<close>

definition emit :: "emission \<Rightarrow> editor \<Rightarrow> editor" where
  "emit x s = s\<lparr>emitted := emitted s @ [x]\<rparr>"

definition shouldTriggerOnModelTouched :: "range option \<Rightarrow> string \<Rightarrow> editor \<Rightarrow> bool" where
  "shouldTriggerOnModelTouched rng source s =
     (let tc = (case trackChanges s of Some t \<Rightarrow> Some t | None \<Rightarrow> config_trackChanges s)
      in rng = None \<and> onModelTouched s \<and> (source = ''user'' \<or> tc = Some TrackAll))"

definition suppressed :: "range option \<Rightarrow> string \<Rightarrow> editor \<Rightarrow> bool" where
  "suppressed rng source s =
     (\<not> onBlur_observed s \<and> \<not> onFocus_observed s \<and> \<not> onSelectionChanged_observed s \<and>
      \<not> shouldTriggerOnModelTouched rng source s)"

definition selectionChangeHandler ::
  "range option \<Rightarrow> range option \<Rightarrow> string \<Rightarrow> editor \<Rightarrow> editor" where
  "selectionChangeHandler rng oldRange source s =
     (if suppressed rng source s then s
      else
        let s1 = (if rng = None then emit (OnBlur source) s
                  else if oldRange = None then emit (OnFocus source) s
                  else s);
            s2 = emit (OnSelectionChanged oldRange rng source) s1
        in if shouldTriggerOnModelTouched rng source s then emit ModelTouched s2 else s2)"

subsection \<open>Validation\<close>

text \<open>
  \<open>String.prototype.trim\<close> strips white space and line terminators from both ends;
  among the code units below 256 these are 9 to 13, 32 and 160.
\<close>

definition isWhiteSpace :: "char \<Rightarrow> bool" where
  "isWhiteSpace ch = ((of_char ch :: nat) \<in> set [9, 10, 11, 12, 13, 32, 160])"

definition trim :: "string \<Rightarrow> string" where
  "trim t = rev (dropWhile isWhiteSpace (rev (dropWhile isWhiteSpace t)))"

datatype length_error = LengthError (given: int) (bound: int)

record validation_errors =
  minLengthError :: "length_error option"
  maxLengthError :: "length_error option"
  requiredError :: "bool option"

definition textLength :: "bool \<Rightarrow> string \<Rightarrow> int" where
  "textLength trimOpt t =
     (if trimOpt then int (length (trim t))
      else if length t = 1 \<and> length (trim t) = 0 then 0
      else int (length t) - 1)"

definition onlyEmptyOperation :: "op list \<Rightarrow> bool" where
  "onlyEmptyOperation deltaOperations =
     (case deltaOperations of
        [p] \<Rightarrow> insert_toString (op_insert p) = Some [CHR 0x0A] \<or>
               insert_toString (op_insert p) = Some []
      | _ \<Rightarrow> False)"

text \<open>\<open>validate\<close> returns \<open>null\<close> (\<open>None\<close>) or the object holding the errors found.\<close>

definition validate :: "collab \<Rightarrow> editor \<Rightarrow> validation_errors option" where
  "validate c s =
     (case quillEditor s of
        None \<Rightarrow> None
      | Some e \<Rightarrow>
          let n = textLength (trimOnValidation s) (getText c e);
              only_empty = onlyEmptyOperation (ops (getContents c e));
              err1 = (case minLength s of
                        Some m \<Rightarrow> if m \<noteq> 0 \<and> n \<noteq> 0 \<and> n < m
                                  then Some (LengthError n m) else None
                      | None \<Rightarrow> None);
              err2 = (case maxLength s of
                        Some m \<Rightarrow> if m \<noteq> 0 \<and> n > m
                                  then Some (LengthError n m) else None
                      | None \<Rightarrow> None);
              err3 = (if required s \<and> n = 0 \<and> only_empty then Some True else None);
              valid = (err1 = None \<and> err2 = None \<and> err3 = None)
          in if valid then None
             else Some \<lparr>minLengthError = err1, maxLengthError = err2, requiredError = err3\<rparr>)"

section \<open>The read-only component\<close>

text \<open>
  The view's \<open>valueSetter\<close> writes to the engine itself and has no \<open>return\<close>
  statement: the pair is the returned value, \<open>undefined\<close>, and the engine after the call.
\<close>

definition view_valueSetter ::
  "collab \<Rightarrow> 'a component_scheme \<Rightarrow> engine \<Rightarrow> jsval \<Rightarrow> jsval \<times> engine" where
  "view_valueSetter c s e v =
     (let fmt = getFormat (format s) (config_format s) in
      if fmt = FText then (JUndefined, setText v None e)
      else
        let cont =
              (if fmt = FHtml then
                 clipboard_convert c (if resolve_sanitize s then sanitizeHtml c v else v)
               else if fmt = FJson then
                 (case JSON_parse c v of
                    Some parsed \<Rightarrow> parsed
                  | None \<Rightarrow> JArr [JObj [(''insert'', v)]])
               else v)
        in (JUndefined, setContents cont None e))"

text \<open>The loader callback of the view: the instance is created read-only.\<close>

definition view_createEditor :: "collab \<Rightarrow> component \<Rightarrow> component" where
  "view_createEditor c s =
     (let e = new_Quill True;
          s1 = s\<lparr>quillEditor := Some e\<rparr>
      in if truthy (content s1)
         then s1\<lparr>quillEditor := Some (snd (view_valueSetter c s1 e (content s1)))\<rparr>
         else s1)"

text \<open>The subscription to the \<open>content\<close> input of the view.\<close>

definition view_content_changed :: "collab \<Rightarrow> jsval \<Rightarrow> component \<Rightarrow> component" where
  "view_content_changed c v s =
     (let s1 = s\<lparr>content := v\<rparr> in
      case quillEditor s1 of
        None \<Rightarrow> s1
      | Some e \<Rightarrow>
          if truthy v
          then s1\<lparr>quillEditor := Some (snd (view_valueSetter c s1 e v))\<rparr>
          else s1)"

section \<open>Observations on a state\<close>

text \<open>The calls made so far on the instance, if there is one, and its handlers.\<close>

definition engine_calls :: "'a component_scheme \<Rightarrow> call list" where
  "engine_calls s = (case quillEditor s of None \<Rightarrow> [] | Some e \<Rightarrow> calls e)"

definition engine_handlers :: "'a component_scheme \<Rightarrow> listener list" where
  "engine_handlers s = (case quillEditor s of None \<Rightarrow> [] | Some e \<Rightarrow> handlers e)"

definition editable :: "'a component_scheme \<Rightarrow> bool" where
  "editable s = (case quillEditor s of None \<Rightarrow> False | Some e \<Rightarrow> enabled e)"

fun event_of :: "listener \<Rightarrow> event_name" where
  "event_of (Listener ev d) = ev"

text \<open>
  One registration set is alive: the component holds a subscription, and the handlers on
  the engine are those of that subscription, one for each of the three events.
\<close>

definition one_registration_set :: "editor \<Rightarrow> bool" where
  "one_registration_set s =
     (case eventsSubscription s of
        None \<Rightarrow> False
      | Some ls \<Rightarrow> engine_handlers s = ls \<and>
                   map event_of ls = [SelectionChange, TextChange, EditorChange])"

text \<open>What a handler run added to the emissions.\<close>

definition new_emissions :: "editor \<Rightarrow> editor \<Rightarrow> emission list" where
  "new_emissions s s' = drop (length (emitted s)) (emitted s')"

fun is_blur :: "emission \<Rightarrow> bool" where
  "is_blur (OnBlur src) = True"
| "is_blur x = False"

fun is_focus :: "emission \<Rightarrow> bool" where
  "is_focus (OnFocus src) = True"
| "is_focus x = False"

fun is_selection :: "emission \<Rightarrow> bool" where
  "is_selection (OnSelectionChanged old new src) = True"
| "is_selection x = False"

text \<open>The errors in the result of \<open>validate\<close>; \<open>null\<close> holds none.\<close>

definition min_error :: "validation_errors option \<Rightarrow> length_error option" where
  "min_error r = (case r of None \<Rightarrow> None | Some err \<Rightarrow> minLengthError err)"

definition max_error :: "validation_errors option \<Rightarrow> length_error option" where
  "max_error r = (case r of None \<Rightarrow> None | Some err \<Rightarrow> maxLengthError err)"

definition required_error :: "validation_errors option \<Rightarrow> bool option" where
  "required_error r = (case r of None \<Rightarrow> None | Some err \<Rightarrow> requiredError err)"

text \<open>
  The effective text length in the words of the specification: the trimmed length when
  trimming is requested; otherwise the raw length minus one, except that a text that is
  exactly one newline counts as 0.
\<close>

definition spec_effective_length :: "bool \<Rightarrow> string \<Rightarrow> int" where
  "spec_effective_length trimOpt t =
     (if trimOpt then int (length (trim t))
      else if t = [CHR 0x0A] then 0
      else int (length t) - 1)"

section \<open>Initial states and a sample environment\<close>

text \<open>The editor as its field initialisers leave it, with an empty service configuration.\<close>

definition new_editor :: editor where
  "new_editor =
     \<lparr>format = None, sanitize = None, config_format = None, config_sanitize = None,
      quillEditor = None, content = JUndefined,
      readOnly = Some False, config_readOnly = None, maxLength = None, minLength = None,
      required = False, trackChanges = None, config_trackChanges = None,
      trimOnValidation = False, compareValues = False, filterNull = False,
      debounceTime = None, disabled = False, eventsSubscription = None,
      onModelTouched = False, onBlur_observed = False, onFocus_observed = False,
      onSelectionChanged_observed = False, emitted = [], host_disabled = None\<rparr>"

definition new_view :: component where
  "new_view =
     \<lparr>format = None, sanitize = None, config_format = None, config_sanitize = None,
      quillEditor = None, content = JUndefined\<rparr>"

text \<open>
  An environment for concrete runs: an engine that answers with the empty document, an
  importer and a sanitizer that hand their argument back, and the two JSON functions on
  the few inputs used below (\<open>JSON.parse\<close> accepts \<open>[]\<close> and rejects \<open>{oops\<close>;
  \<open>JSON.stringify\<close> of the empty string, of \<open>null\<close> and of the empty document).
\<close>

definition empty_document :: delta where
  "empty_document = \<lparr>ops = [\<lparr>op_insert = Some (InsText [CHR 0x0A]), op_rest = []\<rparr>]\<rparr>"

definition empty_document_json :: string where
  "empty_document_json =
     ''{'' @ [CHR 0x22] @ ''ops'' @ [CHR 0x22] @ '':[{'' @ [CHR 0x22] @ ''insert'' @ [CHR 0x22] @
     '':'' @ [CHR 0x22, CHR 0x5C] @ ''n'' @ [CHR 0x22] @ ''}]}''"

definition sample_collab :: collab where
  "sample_collab =
     \<lparr>getText = (\<lambda>e. [CHR 0x0A]),
      getContents = (\<lambda>e. empty_document),
      clipboard_convert = (\<lambda>v. v),
      sanitizeHtml = (\<lambda>v. v),
      JSON_parse = (\<lambda>v. if v = JStr ''[]'' then Some (JArr []) else None),
      JSON_stringify = (\<lambda>v. if v = JStr [] then Some [CHR 0x22, CHR 0x22]
                              else if v = JNull then Some ''null''
                              else if v = delta_js empty_document then Some empty_document_json
                              else None)\<rparr>"

section \<open>Auxiliary facts\<close>

lemma valueSetter_content: "valueSetter c (s\<lparr>content := v\<rparr>) w = valueSetter c s w"
  by (simp add: valueSetter_def resolve_sanitize_def cong: option.case_cong)

lemma fold_remove1_prefix: "fold remove1 xs (xs @ ys) = ys"
  by (induction xs) simp_all

lemma fold_remove1_Nil: "fold remove1 xs [] = []"
  by (induction xs) simp_all

lemma handlers_fold_off: "handlers (fold off ls e) = fold remove1 ls (handlers e)"
  by (induction ls arbitrary: e) (simp_all add: off_def)

lemma calls_fold_off: "calls (fold off ls e) = calls e"
  by (induction ls arbitrary: e) (simp_all add: off_def)

lemma engine_calls_addQuillEventListeners:
  "engine_calls (addQuillEventListeners s) = engine_calls s"
  by (auto simp add: addQuillEventListeners_def dispose_def engine_calls_def Let_def on_def
        calls_fold_off split: option.splits)

text \<open>The calls that creating the instance makes on it, in order.\<close>

lemma engine_calls_createEditor:
  "engine_calls (createEditor c s) =
     (if truthy (content s) then
        [if getFormat (format s) (config_format s) = FText
         then SetText (content s) (Some ''silent'')
         else SetContents (valueSetter c s (content s)) (Some ''silent''),
         HistoryClear]
      else [])
     @ (if disabled s then [Disable] else if readOnly s = Some True then [] else [Enable])"
proof -
  have "engine_calls (createEditor c s) =
        engine_calls (setDisabledState None
          (s\<lparr>quillEditor := Some (flushContent c s (new_Quill (resolve_readOnly s)))\<rparr>))"
    by (simp add: createEditor_def Let_def engine_calls_addQuillEventListeners)
  also have "\<dots> =
     (if truthy (content s) then
        [if getFormat (format s) (config_format s) = FText
         then SetText (content s) (Some ''silent'')
         else SetContents (valueSetter c s (content s)) (Some ''silent''),
         HistoryClear]
      else [])
     @ (if disabled s then [Disable] else if readOnly s = Some True then [] else [Enable])"
    by (simp add: Let_def setDisabledState_def engine_calls_def flushContent_def new_Quill_def
          historyClear_def setText_def setContents_def invoke_def enable_def disable_def)
  finally show ?thesis .
qed

lemma onlyEmptyOperation_iff:
  "onlyEmptyOperation xs \<longleftrightarrow>
     (\<exists>p. xs = [p] \<and> (op_insert p = Some (InsText [CHR 0x0A]) \<or> op_insert p = Some (InsText [])))"
proof (cases xs)
  case Nil
  then show ?thesis by (simp add: onlyEmptyOperation_def)
next
  case (Cons p ps)
  have *: "insert_toString i = Some t \<longleftrightarrow> i = Some (InsText t)"
    if "t \<noteq> ''[object Object]''" for i t
    using that by (cases i rule: insert_toString.cases) auto
  show ?thesis using Cons by (cases ps) (auto simp add: onlyEmptyOperation_def *)
qed

text \<open>
  The special case of the source for a text of one white-space character gives what
  the general rule gives there, so the computed length is the specified one.
\<close>

lemma textLength_spec: "textLength b t = spec_effective_length b t"
  unfolding textLength_def spec_effective_length_def by (cases t) auto

lemma addQuillEventListeners_handlers:
  assumes "quillEditor s = Some e"
  shows "eventsSubscription (addQuillEventListeners s) =
           Some [Listener SelectionChange None, Listener TextChange (debounceTime s),
                 Listener EditorChange (debounceTime s)]"
    and "engine_handlers (addQuillEventListeners s) =
           fold remove1 (case eventsSubscription s of None \<Rightarrow> [] | Some ls \<Rightarrow> ls) (handlers e) @
           [Listener SelectionChange None, Listener TextChange (debounceTime s),
            Listener EditorChange (debounceTime s)]"
  using assms
  by (simp_all add: addQuillEventListeners_def dispose_def Let_def engine_handlers_def on_def
        handlers_fold_off split: option.splits)

lemma one_registration_set_addQuillEventListeners:
  assumes "quillEditor s = Some e" "one_registration_set s"
  shows "eventsSubscription (addQuillEventListeners s) =
           Some [Listener SelectionChange None, Listener TextChange (debounceTime s),
                 Listener EditorChange (debounceTime s)]"
    and "engine_handlers (addQuillEventListeners s) =
           [Listener SelectionChange None, Listener TextChange (debounceTime s),
            Listener EditorChange (debounceTime s)]"
proof -
  from assms obtain ls where ls: "eventsSubscription s = Some ls" "handlers e = ls"
    by (auto simp add: one_registration_set_def engine_handlers_def split: option.splits)
  have "fold remove1 ls (ls @ []) = []" by (rule fold_remove1_prefix)
  then have h: "fold remove1 ls (handlers e) = []" using ls by simp
  show "eventsSubscription (addQuillEventListeners s) =
           Some [Listener SelectionChange None, Listener TextChange (debounceTime s),
                 Listener EditorChange (debounceTime s)]"
    using addQuillEventListeners_handlers(1)[OF assms(1)] .
  show "engine_handlers (addQuillEventListeners s) =
           [Listener SelectionChange None, Listener TextChange (debounceTime s),
            Listener EditorChange (debounceTime s)]"
    using addQuillEventListeners_handlers(2)[OF assms(1)] ls h by simp
qed

lemma setDisabledState_handlers:
  "quillEditor s = Some e \<Longrightarrow>
     \<exists>e'. quillEditor (setDisabledState arg s) = Some e' \<and> handlers e' = handlers e"
  by (simp add: setDisabledState_def Let_def enable_def disable_def invoke_def)

text \<open>Creating the instance leaves exactly one registration set alive.\<close>

lemma one_registration_set_createEditor: "one_registration_set (createEditor c s)"
proof -
  let ?s1 = "s\<lparr>quillEditor := Some (flushContent c s (new_Quill (resolve_readOnly s)))\<rparr>"
  have h0: "handlers (flushContent c s (new_Quill (resolve_readOnly s))) = []"
    by (simp add: flushContent_def new_Quill_def historyClear_def setText_def setContents_def
          invoke_def)
  have "\<exists>e'. quillEditor (setDisabledState None ?s1) = Some e' \<and> handlers e' = []"
    using setDisabledState_handlers
            [of ?s1 "flushContent c s (new_Quill (resolve_readOnly s))" None] h0
    by simp
  then obtain e' where e': "quillEditor (setDisabledState None ?s1) = Some e'" "handlers e' = []"
    by blast
  have eq: "createEditor c s = addQuillEventListeners (setDisabledState None ?s1)"
    by (simp add: createEditor_def Let_def)
  show ?thesis
    unfolding eq one_registration_set_def
    using addQuillEventListeners_handlers[OF e'(1)] e'(2)
    by (simp add: fold_remove1_Nil)
qed

section \<open>Properties\<close>

subsection \<open>Values written before the instance exists\<close>

text \<open>
  C1, as the code has it. While no instance exists \<open>writeValue\<close> makes no engine call:
  there is still no instance and no call afterwards. The value is cached, unless the
  filter-null option is enabled and the value is exactly \<open>null\<close>: then the call changes
  nothing. When the instance is created, a truthy cached value is written exactly once,
  with the \<open>'silent'\<close> source (\<open>setText\<close> under the text format, \<open>setContents\<close> of the
  encoded value otherwise), and the call right after it clears the history; a falsy
  cached value is not written.
\<close>

theorem writeValue_buffers_until_created:
  "quillEditor s = None \<Longrightarrow>
     quillEditor (writeValue c v s) = None \<and>
     engine_calls (writeValue c v s) = [] \<and>
     writeValue c v s = (if filterNull s \<and> v = JNull then s else s\<lparr>content := v\<rparr>) \<and>
     (if truthy (content s) then
        take 2 (engine_calls (createEditor c s)) =
          [if getFormat (format s) (config_format s) = FText
           then SetText (content s) (Some ''silent'')
           else SetContents (valueSetter c s (content s)) (Some ''silent''),
           HistoryClear] \<and>
        filter is_write (engine_calls (createEditor c s)) =
          [if getFormat (format s) (config_format s) = FText
           then SetText (content s) (Some ''silent'')
           else SetContents (valueSetter c s (content s)) (Some ''silent'')]
      else filter is_write (engine_calls (createEditor c s)) = [])"
  by (simp add: writeValue_def engine_calls_createEditor) (simp add: engine_calls_def)

theorem writeValue_buffers_until_created_witness:
  "quillEditor new_editor = None \<and>
   engine_calls (writeValue sample_collab (JStr ''Hallo'') new_editor) = [] \<and>
   content (writeValue sample_collab (JStr ''Hallo'') new_editor) = JStr ''Hallo'' \<and>
   quillEditor (writeValue sample_collab (JStr ''Hallo'') new_editor) = None \<and>
   filter is_write
     (engine_calls (createEditor sample_collab
        (writeValue sample_collab (JStr ''Hallo'') new_editor))) =
     [SetContents (JStr ''Hallo'') (Some ''silent'')] \<and>
   take 2
     (engine_calls (createEditor sample_collab
        (writeValue sample_collab (JStr ''Hallo'') new_editor))) =
     [SetContents (JStr ''Hallo'') (Some ''silent''), HistoryClear]"
proof -
  have h: "quillEditor new_editor = None"
    by (simp add: new_editor_def)
  have w: "writeValue sample_collab (JStr ''Hallo'') new_editor =
           new_editor\<lparr>content := JStr ''Hallo''\<rparr>"
    using writeValue_buffers_until_created [OF h, of sample_collab "JStr ''Hallo''"]
    by simp
  have h': "quillEditor (new_editor\<lparr>content := JStr ''Hallo''\<rparr>) = None"
    by (simp add: new_editor_def)
  show ?thesis
    using h writeValue_buffers_until_created [OF h, of sample_collab "JStr ''Hallo''"]
      writeValue_buffers_until_created [OF h', of sample_collab JNull]
    by (simp add: w)
      (simp add: new_editor_def getFormat_def valueSetter_def resolve_sanitize_def
         sample_collab_def)
qed

text \<open>
  The claim as stated fails: with the filter-null option enabled, \<open>null\<close> written before
  the instance exists is not cached; the value cached before stays.
\<close>

theorem writeValue_null_not_cached:
  "quillEditor (new_editor\<lparr>filterNull := True, content := JStr ''Hallo''\<rparr>) = None \<and>
   content (writeValue sample_collab JNull
              (new_editor\<lparr>filterNull := True, content := JStr ''Hallo''\<rparr>)) \<noteq> JNull"
  by (simp add: writeValue_def new_editor_def)

subsection \<open>Writing a falsy value\<close>

text \<open>
  C2. With an instance, the filter-null option disabled and the write not skipped by the
  comparison of values, \<open>writeValue\<close> of a falsy value caches the value and makes one
  engine call, \<open>setText('')\<close> without a source: whatever calls the engine received
  before and whatever the format is.
\<close>

theorem writeValue_falsy_sets_empty_text:
  assumes "quillEditor s = Some e" and "\<not> truthy v" and "\<not> filterNull s"
    and "\<not> (compareValues s \<and>
            JSON_stringify c (delta_js (getContents c e)) = JSON_stringify c (valueSetter c s v))"
  shows "writeValue c v s = s\<lparr>content := v, quillEditor := Some (setText (JStr []) None e)\<rparr> \<and>
         engine_calls (writeValue c v s) = calls e @ [SetText (JStr []) None]"
  using assms
  by (auto simp add: writeValue_def Let_def setText_def invoke_def valueSetter_content
        engine_calls_def)

theorem writeValue_falsy_sets_empty_text_witness:
  "engine_calls
     (writeValue sample_collab (JStr [])
        (new_editor\<lparr>quillEditor :=
                      Some \<lparr>calls = [SetText (JStr ''Hallo'') None], enabled = True, handlers = []\<rparr>,
                    format := Some FText, compareValues := True\<rparr>))
   = [SetText (JStr ''Hallo'') None, SetText (JStr []) None]"
proof -
  let ?e = "\<lparr>calls = [SetText (JStr ''Hallo'') None], enabled = True, handlers = []\<rparr>"
  let ?s = "new_editor\<lparr>quillEditor := Some ?e, format := Some FText, compareValues := True\<rparr>"
  have h1: "quillEditor ?s = Some ?e" by simp
  have h2: "\<not> truthy (JStr [])" by simp
  have h3: "\<not> filterNull ?s" by (simp add: new_editor_def)
  have h4: "\<not> (compareValues ?s \<and>
               JSON_stringify sample_collab (delta_js (getContents sample_collab ?e)) =
               JSON_stringify sample_collab (valueSetter sample_collab ?s (JStr [])))"
    by (simp add: sample_collab_def valueSetter_def getFormat_def empty_document_json_def
          delta_js_def empty_document_def)
  show ?thesis
    using writeValue_falsy_sets_empty_text [OF h1 h2 h3 h4]
    by (simp add: engine_calls_def setText_def invoke_def)
qed

subsection \<open>Malformed JSON\<close>

text \<open>
  C3. Under the \<open>json\<close> format the editor's \<open>valueSetter\<close> returns what \<open>JSON.parse\<close>
  returns when it succeeds and \<open>[{insert: value}]\<close> when it throws; it has no other
  outcome, so no error reaches the caller. The same holds for the \<open>valueSetter\<close> of the
  read-only component, which hands that same value to \<open>setContents\<close> itself.
\<close>

theorem valueSetter_json_fallback:
  "getFormat (format s) (config_format s) = FJson \<Longrightarrow>
   getFormat (format s') (config_format s') = FJson \<Longrightarrow>
   valueSetter c s v =
     (case JSON_parse c v of
        Some parsed \<Rightarrow> parsed
      | None \<Rightarrow> JArr [JObj [(''insert'', v)]]) \<and>
   snd (view_valueSetter c s' e v) =
     setContents
       (case JSON_parse c v of
          Some parsed \<Rightarrow> parsed
        | None \<Rightarrow> JArr [JObj [(''insert'', v)]])
       None e"
  by (simp add: valueSetter_def view_valueSetter_def)

theorem valueSetter_json_fallback_witness:
  "valueSetter sample_collab (new_editor\<lparr>format := Some FJson\<rparr>) (JStr ''{oops'') =
     JArr [JObj [(''insert'', JStr ''{oops'')]] \<and>
   calls (snd (view_valueSetter sample_collab (new_view\<lparr>config_format := Some FJson\<rparr>)
                 (new_Quill True) (JStr ''{oops''))) =
     [SetContents (JArr [JObj [(''insert'', JStr ''{oops'')]]) None] \<and>
   valueSetter sample_collab (new_editor\<lparr>format := Some FJson\<rparr>) (JStr ''[]'') = JArr []"
proof -
  have h: "getFormat (format (new_editor\<lparr>format := Some FJson\<rparr>))
             (config_format (new_editor\<lparr>format := Some FJson\<rparr>)) = FJson"
    by (simp add: getFormat_def)
  have h': "getFormat (format (new_view\<lparr>config_format := Some FJson\<rparr>))
              (config_format (new_view\<lparr>config_format := Some FJson\<rparr>)) = FJson"
    by (simp add: getFormat_def new_view_def)
  show ?thesis
    using valueSetter_json_fallback [OF h h', of sample_collab "JStr ''{oops''" "new_Quill True"]
      valueSetter_json_fallback [OF h h', of sample_collab "JStr ''[]''" "new_Quill True"]
    by (simp add: sample_collab_def setContents_def invoke_def new_Quill_def)
qed

subsection \<open>Validation\<close>

text \<open>
  C4. With an instance, the result of \<open>validate\<close> holds \<open>requiredError {empty: true}\<close>
  exactly when the required option is set, the effective text length is 0 (the only
  falsy length), and the operation list is one operation whose inserted value is the
  empty string or one newline. The result is then not \<open>null\<close>, and the error never has
  another value. This holds for every \<open>minLength\<close>, so also for 0.
\<close>

theorem validate_requiredError_iff:
  "quillEditor s = Some e \<Longrightarrow>
     (required_error (validate c s) = Some True \<longleftrightarrow>
        required s \<and> textLength (trimOnValidation s) (getText c e) = 0 \<and>
        (\<exists>p. ops (getContents c e) = [p] \<and>
             (op_insert p = Some (InsText [CHR 0x0A]) \<or> op_insert p = Some (InsText [])))) \<and>
     (required_error (validate c s) = Some True \<longrightarrow> validate c s \<noteq> None) \<and>
     (required_error (validate c s) = None \<or> required_error (validate c s) = Some True)"
  by (auto simp add: validate_def required_error_def Let_def onlyEmptyOperation_iff)

theorem validate_requiredError_iff_witness:
  "validate sample_collab
     (new_editor\<lparr>quillEditor := Some (new_Quill False), minLength := Some 0, required := True\<rparr>)
   = Some \<lparr>minLengthError = None, maxLengthError = None, requiredError = Some True\<rparr> \<and>
   required_error (validate sample_collab
     (new_editor\<lparr>quillEditor := Some (new_Quill False), minLength := Some 0, required := True\<rparr>))
   = Some True"
proof -
  let ?s = "new_editor\<lparr>quillEditor := Some (new_Quill False), minLength := Some 0,
                        required := True\<rparr>"
  have h: "quillEditor ?s = Some (new_Quill False)" by simp
  have r: "required ?s \<and>
           textLength (trimOnValidation ?s) (getText sample_collab (new_Quill False)) = 0 \<and>
           (\<exists>p. ops (getContents sample_collab (new_Quill False)) = [p] \<and>
                (op_insert p = Some (InsText [CHR 0x0A]) \<or> op_insert p = Some (InsText [])))"
    by (simp add: new_editor_def sample_collab_def textLength_def trim_def isWhiteSpace_def
          empty_document_def)
  have "required_error (validate sample_collab ?s) = Some True"
    using validate_requiredError_iff [OF h, of sample_collab] r by blast
  then show ?thesis
    by (simp add: validate_def required_error_def Let_def new_editor_def sample_collab_def
          textLength_def trim_def isWhiteSpace_def empty_document_def onlyEmptyOperation_def
          split: if_splits)
qed

text \<open>
  C5. With an instance, the length that \<open>validate\<close> computes from the native text is
  the effective length of the specification, and the two length errors are derived from
  it: \<open>minLengthError\<close> when the minimum and the length are not 0 and the length is
  below the minimum, \<open>maxLengthError\<close> when the maximum is not 0 and the length is
  above it, each carrying the length and the limit.
\<close>

theorem validate_effective_length:
  "quillEditor s = Some e \<Longrightarrow>
     textLength (trimOnValidation s) (getText c e) =
       spec_effective_length (trimOnValidation s) (getText c e) \<and>
     min_error (validate c s) =
       (case minLength s of
          Some m \<Rightarrow>
            if m \<noteq> 0 \<and> spec_effective_length (trimOnValidation s) (getText c e) \<noteq> 0 \<and>
               spec_effective_length (trimOnValidation s) (getText c e) < m
            then Some (LengthError (spec_effective_length (trimOnValidation s) (getText c e)) m)
            else None
        | None \<Rightarrow> None) \<and>
     max_error (validate c s) =
       (case maxLength s of
          Some m \<Rightarrow>
            if m \<noteq> 0 \<and> spec_effective_length (trimOnValidation s) (getText c e) > m
            then Some (LengthError (spec_effective_length (trimOnValidation s) (getText c e)) m)
            else None
        | None \<Rightarrow> None)"
  by (auto simp add: validate_def min_error_def max_error_def Let_def textLength_spec
        split: option.splits)

theorem validate_effective_length_witness:
  "textLength False (''123456'' @ [CHR 0x0A]) = 6 \<and>
   textLength False [CHR 0x0A] = 0 \<and>
   textLength True (''  ab '' @ [CHR 0x0A]) = 2 \<and>
   validate (sample_collab\<lparr>getText := (\<lambda>e. ''1234'' @ [CHR 0x0A])\<rparr>)
     (new_editor\<lparr>quillEditor := Some (new_Quill False), maxLength := Some 5,
                 minLength := Some 3\<rparr>) = None \<and>
   min_error (validate (sample_collab\<lparr>getText := (\<lambda>e. ''123456'' @ [CHR 0x0A])\<rparr>)
     (new_editor\<lparr>quillEditor := Some (new_Quill False), maxLength := Some 5,
                 minLength := Some 3\<rparr>)) = None \<and>
   max_error (validate (sample_collab\<lparr>getText := (\<lambda>e. ''123456'' @ [CHR 0x0A])\<rparr>)
     (new_editor\<lparr>quillEditor := Some (new_Quill False), maxLength := Some 5,
                 minLength := Some 3\<rparr>)) = Some (LengthError 6 5)"
proof -
  let ?c = "sample_collab\<lparr>getText := (\<lambda>e. ''123456'' @ [CHR 0x0A])\<rparr>"
  let ?s = "new_editor\<lparr>quillEditor := Some (new_Quill False), maxLength := Some 5,
                        minLength := Some 3\<rparr>"
  have h: "quillEditor ?s = Some (new_Quill False)" by simp
  show ?thesis
    using validate_effective_length [OF h, of ?c]
    by (simp add: new_editor_def spec_effective_length_def textLength_def trim_def
          isWhiteSpace_def validate_def Let_def sample_collab_def onlyEmptyOperation_def
          empty_document_def)
qed

subsection \<open>The disabled state\<close>

text \<open>
  C6. With an instance: \<open>setDisabledState(true)\<close> calls the engine's \<open>disable\<close> and
  sets the host attribute \<open>disabled\<close>; \<open>setDisabledState(false)\<close> removes the attribute
  and calls \<open>enable\<close> unless the read-only input is active. So without read-only,
  disabling and then enabling leaves the instance editable, and the attribute is there
  exactly when the state asked for is disabled.
\<close>

theorem setDisabledState_contract:
  "quillEditor s = Some e \<Longrightarrow>
     engine_calls (setDisabledState (Some True) s) = calls e @ [Disable] \<and>
     host_disabled (setDisabledState (Some True) s) = Some ''disabled'' \<and>
     \<not> editable (setDisabledState (Some True) s) \<and>
     engine_calls (setDisabledState (Some False) s) =
       calls e @ (if readOnly s = Some True then [] else [Enable]) \<and>
     host_disabled (setDisabledState (Some False) s) = None \<and>
     (if readOnly s = Some True
      then editable (setDisabledState (Some False) s) = enabled e
      else editable (setDisabledState (Some False) (setDisabledState (Some True) s))) \<and>
     (host_disabled (setDisabledState (Some b) s) \<noteq> None \<longleftrightarrow> b) \<and>
     disabled (setDisabledState (Some b) s) = b"
  by (simp add: setDisabledState_def engine_calls_def editable_def Let_def enable_def
        disable_def invoke_def)

theorem setDisabledState_contract_witness:
  "engine_calls (setDisabledState (Some True)
     (new_editor\<lparr>quillEditor := Some (new_Quill False)\<rparr>)) = [Disable] \<and>
   engine_calls (setDisabledState (Some False)
     (new_editor\<lparr>quillEditor := Some (new_Quill False)\<rparr>)) = [Enable] \<and>
   editable (setDisabledState (Some False) (setDisabledState (Some True)
     (new_editor\<lparr>quillEditor := Some (new_Quill False)\<rparr>)))"
proof -
  let ?s = "new_editor\<lparr>quillEditor := Some (new_Quill False)\<rparr>"
  have h: "quillEditor ?s = Some (new_Quill False)" by simp
  show ?thesis
    using setDisabledState_contract [OF h, of True]
    by (simp add: new_editor_def new_Quill_def)
qed

subsection \<open>Changing the debounce interval\<close>

text \<open>
  C7, as the code has it. With an instance and one registration set alive: when the
  debounce input changes to a number other than 0, the three subscriptions are torn down
  and created again, so that the handlers on the engine are exactly the new three, with
  the new interval on the text-change and editor-change streams. After every change of
  the input, to whatever value, exactly one registration set is alive.
\<close>

theorem debounceTime_change_rebuilds_listeners:
  assumes "quillEditor s = Some e" and "one_registration_set s"
  shows "(truthy_num d \<longrightarrow>
            eventsSubscription (debounceTime_changed d s) =
              Some [Listener SelectionChange None, Listener TextChange d,
                    Listener EditorChange d] \<and>
            engine_handlers (debounceTime_changed d s) =
              [Listener SelectionChange None, Listener TextChange d, Listener EditorChange d]) \<and>
         debounceTime (debounceTime_changed d s) = d \<and>
         one_registration_set (debounceTime_changed d s)"
proof -
  let ?s1 = "s\<lparr>debounceTime := d\<rparr>"
  have a: "quillEditor ?s1 = Some e" using assms(1) by simp
  have b: "one_registration_set ?s1" using assms(2)
    by (auto simp add: one_registration_set_def engine_handlers_def split: option.splits)
  note l = one_registration_set_addQuillEventListeners [OF a b]
  show ?thesis
  proof (cases "truthy_num d")
    case True
    then have eq: "debounceTime_changed d s = addQuillEventListeners ?s1"
      using assms(1) by (simp add: debounceTime_changed_def Let_def)
    have "debounceTime (addQuillEventListeners ?s1) = d"
      using a by (simp add: addQuillEventListeners_def dispose_def Let_def split: option.splits)
    then show ?thesis using True l eq by (simp add: one_registration_set_def)
  next
    case False
    then have "debounceTime_changed d s = ?s1"
      using assms(1) by (simp add: debounceTime_changed_def Let_def)
    then show ?thesis using False b by simp
  qed
qed

theorem debounceTime_change_rebuilds_listeners_witness:
  "one_registration_set (createEditor sample_collab (new_editor\<lparr>debounceTime := Some 400\<rparr>)) \<and>
   engine_handlers
     (debounceTime_changed (Some 200)
        (createEditor sample_collab (new_editor\<lparr>debounceTime := Some 400\<rparr>))) =
     [Listener SelectionChange None, Listener TextChange (Some 200),
      Listener EditorChange (Some 200)]"
proof -
  let ?s = "createEditor sample_collab (new_editor\<lparr>debounceTime := Some 400\<rparr>)"
  have h2: "one_registration_set ?s" by (rule one_registration_set_createEditor)
  then obtain e where h1: "quillEditor ?s = Some e"
    by (auto simp add: one_registration_set_def engine_handlers_def split: option.splits)
  show ?thesis
    using h2 debounceTime_change_rebuilds_listeners [OF h1 h2, of "Some 200"] by simp
qed

text \<open>
  The claim as stated fails: after the interval 400 is changed to absent, the handlers
  on the engine are still the ones debounced by 400.
\<close>

theorem debounceTime_cleared_keeps_listeners:
  "debounceTime
     (debounceTime_changed None
        (createEditor sample_collab (new_editor\<lparr>debounceTime := Some 400\<rparr>))) = None \<and>
   engine_handlers
     (debounceTime_changed None
        (createEditor sample_collab (new_editor\<lparr>debounceTime := Some 400\<rparr>))) =
     [Listener SelectionChange None, Listener TextChange (Some 400),
      Listener EditorChange (Some 400)]"
proof -
  let ?s = "createEditor sample_collab (new_editor\<lparr>debounceTime := Some 400\<rparr>)"
  have ls: "engine_handlers ?s =
     [Listener SelectionChange None, Listener TextChange (Some 400),
      Listener EditorChange (Some 400)]"
    by (simp add: createEditor_def Let_def setDisabledState_def addQuillEventListeners_def
          dispose_def engine_handlers_def on_def new_Quill_def flushContent_def new_editor_def
          enable_def invoke_def)
  have "debounceTime_changed None ?s = ?s\<lparr>debounceTime := None\<rparr>"
    by (simp add: debounceTime_changed_def Let_def split: option.splits)
  then show ?thesis using ls by (simp add: engine_handlers_def)
qed

subsection \<open>Content of the read-only component\<close>

text \<open>
  C9, as the code has it. With an instance, a new truthy content value is encoded and
  written: \<open>setText\<close> of the value under the text format, \<open>setContents\<close> of the
  encoded value otherwise, and nothing else is called. Without an instance the value
  is only stored, and creating the instance then writes it in the same way when it is
  truthy.
\<close>

theorem view_truthy_content_written:
  "truthy v \<Longrightarrow>
   (quillEditor s = Some e \<longrightarrow>
      engine_calls (view_content_changed c v s) =
        calls e @ [if getFormat (format s) (config_format s) = FText then SetText v None
                   else SetContents (valueSetter c s v) None]) \<and>
   (quillEditor s = None \<longrightarrow>
      view_content_changed c v s = s\<lparr>content := v\<rparr> \<and>
      engine_calls (view_createEditor c (view_content_changed c v s)) =
        [if getFormat (format s) (config_format s) = FText then SetText v None
         else SetContents (valueSetter c s v) None])"
  by (simp add: view_content_changed_def view_createEditor_def view_valueSetter_def Let_def
        engine_calls_def valueSetter_def resolve_sanitize_def setText_def setContents_def
        invoke_def new_Quill_def cong: option.case_cong)

theorem view_truthy_content_written_witness:
  "truthy (JStr ''test'') \<and>
   engine_calls (view_content_changed sample_collab (JStr ''test'')
     (new_view\<lparr>format := Some FText, quillEditor := Some (new_Quill True)\<rparr>)) =
     [SetText (JStr ''test'') None] \<and>
   engine_calls (view_createEditor sample_collab
     (view_content_changed sample_collab (JStr ''test'') new_view)) =
     [SetContents (JStr ''test'') None]"
proof -
  have h: "truthy (JStr ''test'')" by simp
  show ?thesis
    using h
      view_truthy_content_written [OF h, of "new_view\<lparr>format := Some FText,
        quillEditor := Some (new_Quill True)\<rparr>" "new_Quill True" sample_collab]
      view_truthy_content_written [OF h, of new_view "new_Quill True" sample_collab]
    by (simp add: new_view_def new_Quill_def getFormat_def valueSetter_def resolve_sanitize_def
          sample_collab_def view_content_changed_def view_createEditor_def view_valueSetter_def
          engine_calls_def setText_def setContents_def invoke_def Let_def)
qed

text \<open>
  The claim as stated fails: the empty string delivered to a view that shows
  \<open>Hallo\<close> is not written; the engine receives no call.
\<close>

theorem view_empty_content_not_written:
  "engine_calls (view_createEditor sample_collab
     (new_view\<lparr>format := Some FText, content := JStr ''Hallo''\<rparr>)) =
     [SetText (JStr ''Hallo'') None] \<and>
   engine_calls (view_content_changed sample_collab (JStr [])
     (view_createEditor sample_collab
        (new_view\<lparr>format := Some FText, content := JStr ''Hallo''\<rparr>))) =
     [SetText (JStr ''Hallo'') None]"
  by (simp add: view_content_changed_def view_createEditor_def view_valueSetter_def Let_def
        engine_calls_def setText_def invoke_def new_Quill_def new_view_def getFormat_def)

subsection \<open>Selection changes\<close>

text \<open>
  C10. When the handler does not return early: it emits blur exactly when the new
  range is \<open>null\<close>, focus exactly when the new range is not \<open>null\<close> and the old one is,
  and the selection change once in every case; blur and focus are never both emitted.
\<close>

theorem selectionChangeHandler_emissions:
  "\<not> suppressed rng source s \<Longrightarrow>
     filter is_blur (new_emissions s (selectionChangeHandler rng oldRange source s)) =
       (if rng = None then [OnBlur source] else []) \<and>
     filter is_focus (new_emissions s (selectionChangeHandler rng oldRange source s)) =
       (if rng \<noteq> None \<and> oldRange = None then [OnFocus source] else []) \<and>
     filter is_selection (new_emissions s (selectionChangeHandler rng oldRange source s)) =
       [OnSelectionChanged oldRange rng source] \<and>
     \<not> (filter is_blur (new_emissions s (selectionChangeHandler rng oldRange source s)) \<noteq> [] \<and>
        filter is_focus (new_emissions s (selectionChangeHandler rng oldRange source s)) \<noteq> [])"
  by (simp add: selectionChangeHandler_def new_emissions_def emit_def Let_def)

theorem selectionChangeHandler_emissions_witness:
  "\<not> suppressed None ''user'' (new_editor\<lparr>onBlur_observed := True\<rparr>) \<and>
   emitted (selectionChangeHandler None (Some (Range 0 0)) ''user''
              (new_editor\<lparr>onBlur_observed := True\<rparr>)) =
     [OnBlur ''user'', OnSelectionChanged (Some (Range 0 0)) None ''user'']"
proof -
  have h: "\<not> suppressed None ''user'' (new_editor\<lparr>onBlur_observed := True\<rparr>)"
    by (simp add: suppressed_def)
  show ?thesis
    using h selectionChangeHandler_emissions [OF h, of "Some (Range 0 0)"]
    by (simp add: selectionChangeHandler_def emit_def shouldTriggerOnModelTouched_def
          new_editor_def)
qed

subsection \<open>Filtering null\<close>

text \<open>
  C8. When the filter-null option is enabled and the incoming value is exactly
  \<open>null\<close>, \<open>writeValue\<close> is ignored entirely: the whole component state, with the
  cached content and the engine, is what it was, and so no engine call was made.
\<close>

theorem writeValue_filterNull_ignored:
  "filterNull s \<Longrightarrow> writeValue c JNull s = s"
  by (simp add: writeValue_def)

theorem writeValue_filterNull_ignored_witness:
  "filterNull (new_editor\<lparr>filterNull := True, content := JStr ''Hallo''\<rparr>) \<and>
   writeValue sample_collab JNull (new_editor\<lparr>filterNull := True, content := JStr ''Hallo''\<rparr>)
     = new_editor\<lparr>filterNull := True, content := JStr ''Hallo''\<rparr>"
  using writeValue_filterNull_ignored
          [of "new_editor\<lparr>filterNull := True, content := JStr ''Hallo''\<rparr>" sample_collab]
  by (simp add: new_editor_def)

end
